theory Spec2Isabelle
  imports Complex_Main "HOL-Library.Log_Nat" "HOL-Library.Char_ord" "HOL-Library.List_Lexorder"
begin

section \<open>Python and NumPy numbers\<close>

subsection \<open>Binary64 floating point\<close>

text \<open>
  A Python \<open>float\<close> and a NumPy \<open>float64\<close> are IEEE 754 binary64 numbers. A finite one
  is kept as the rational it denotes; the two infinities and NaN are constructors of
  their own. The two zeros are identified: dividing by a zero gives the infinity that
  \<open>+0\<close> gives, and nothing below depends on which of the two infinities it is.
\<close>

datatype double = Fin rat | PInf | NInf | NaN

definition pow2 :: "int \<Rightarrow> rat" where
  "pow2 k = (if 0 \<le> k then 2 ^ nat k else 1 / 2 ^ nat (- k))"

text \<open>The binary exponent of a non-zero rational: \<open>2 ^ expo x \<le> \<bar>x\<bar> < 2 ^ (expo x + 1)\<close>.\<close>

definition expo :: "rat \<Rightarrow> int" where
  "expo x = (if 1 \<le> \<bar>x\<bar> then bitlen \<lfloor>\<bar>x\<bar>\<rfloor> - 1 else - bitlen (\<lceil>1 / \<bar>x\<bar>\<rceil> - 1))"

definition round_half_even :: "rat \<Rightarrow> int" where
  "round_half_even y =
     (let f = \<lfloor>y\<rfloor>; d = y - of_int f
      in if d < 1 / 2 then f else if 1 / 2 < d then f + 1 else if even f then f else f + 1)"

text \<open>
  Rounding to nearest, ties to even, with 53 significant bits and the exponent unbounded
  above; below the normal range the spacing stays \<open>2 ^ - 1074\<close> (subnormal numbers).
\<close>

definition rnd64 :: "rat \<Rightarrow> rat" where
  "rnd64 x = (if x = 0 then 0
     else let q = max (expo x) (- 1022) - 52
          in of_int (round_half_even (x / pow2 q)) * pow2 q)"

text \<open>The correctly rounded result of an exact value; it overflows to an infinity.\<close>

definition fl :: "rat \<Rightarrow> double" where
  "fl x = (let r = rnd64 x in if expo r < 1024 then Fin r else if 0 < r then PInf else NInf)"

definition isnan :: "double \<Rightarrow> bool" where
  "isnan x = (case x of NaN \<Rightarrow> True | _ \<Rightarrow> False)"

definition isfinite :: "double \<Rightarrow> bool" where
  "isfinite x = (case x of Fin _ \<Rightarrow> True | _ \<Rightarrow> False)"

fun fneg :: "double \<Rightarrow> double" where
  "fneg (Fin a) = Fin (- a)"
| "fneg PInf = NInf"
| "fneg NInf = PInf"
| "fneg NaN = NaN"

text \<open>The sign of a number that is not NaN, as \<open>- 1\<close>, \<open>0\<close> or \<open>1\<close>.\<close>

fun fsgn :: "double \<Rightarrow> int" where
  "fsgn (Fin a) = (if a < 0 then - 1 else if a = 0 then 0 else 1)"
| "fsgn PInf = 1"
| "fsgn NInf = - 1"
| "fsgn NaN = 0"

definition inf_of_sign :: "int \<Rightarrow> double" where
  "inf_of_sign s = (if s = 0 then NaN else if 0 < s then PInf else NInf)"

fun fadd :: "double \<Rightarrow> double \<Rightarrow> double" where
  "fadd (Fin a) (Fin b) = fl (a + b)"
| "fadd NaN _ = NaN"
| "fadd _ NaN = NaN"
| "fadd PInf NInf = NaN"
| "fadd NInf PInf = NaN"
| "fadd PInf _ = PInf"
| "fadd NInf _ = NInf"
| "fadd (Fin a) PInf = PInf"
| "fadd (Fin a) NInf = NInf"

definition fsub :: "double \<Rightarrow> double \<Rightarrow> double" where
  "fsub x y = fadd x (fneg y)"

fun fmul :: "double \<Rightarrow> double \<Rightarrow> double" where
  "fmul (Fin a) (Fin b) = fl (a * b)"
| "fmul NaN _ = NaN"
| "fmul _ NaN = NaN"
| "fmul x y = inf_of_sign (fsgn x * fsgn y)"

text \<open>IEEE division, as NumPy performs it: dividing by zero gives an infinity or NaN.\<close>

fun fdiv :: "double \<Rightarrow> double \<Rightarrow> double" where
  "fdiv (Fin a) (Fin b) = (if b = 0 then inf_of_sign (fsgn (Fin a)) else fl (a / b))"
| "fdiv NaN _ = NaN"
| "fdiv _ NaN = NaN"
| "fdiv (Fin a) _ = Fin 0"
| "fdiv x (Fin b) = inf_of_sign (fsgn x * (if b < 0 then - 1 else 1))"
| "fdiv _ _ = NaN"

text \<open>Comparisons; every comparison with NaN is false.\<close>

fun flt :: "double \<Rightarrow> double \<Rightarrow> bool" where
  "flt NaN _ = False"
| "flt _ NaN = False"
| "flt (Fin a) (Fin b) = (a < b)"
| "flt PInf _ = False"
| "flt _ PInf = True"
| "flt _ NInf = False"
| "flt NInf _ = True"

definition fgt :: "double \<Rightarrow> double \<Rightarrow> bool" where
  "fgt x y = flt y x"

definition fge :: "double \<Rightarrow> double \<Rightarrow> bool" where
  "fge x y = (\<not> isnan x \<and> \<not> isnan y \<and> \<not> flt x y)"

text \<open>\<open>numpy.rint\<close>: the nearest integral value, ties to even.\<close>

fun frint :: "double \<Rightarrow> double" where
  "frint (Fin a) = Fin (of_int (round_half_even a))"
| "frint x = x"

text \<open>
  \<open>ndarray.round(2)\<close>, which \<open>Series.round(2)\<close> calls: NumPy multiplies by \<open>10 ** 2\<close>,
  applies \<open>rint\<close> and divides by \<open>10 ** 2\<close>, each a binary64 operation.
\<close>

definition np_round2 :: "double \<Rightarrow> double" where
  "np_round2 x = fdiv (frint (fmul x (Fin 100))) (Fin 100)"

subsection \<open>Python numbers and their operators\<close>

datatype error = ZeroDivisionError | OverflowError | ValueError | KeyError

datatype pynum = PInt int | PFloat double

definition bind :: "error + 'a \<Rightarrow> ('a \<Rightarrow> error + 'b) \<Rightarrow> error + 'b" where
  "bind m f = (case m of Inl e \<Rightarrow> Inl e | Inr v \<Rightarrow> f v)"

text \<open>\<open>float(i)\<close> of a Python int: correctly rounded, OverflowError beyond the range.\<close>

definition float_of_int :: "int \<Rightarrow> error + double" where
  "float_of_int i = (case fl (of_int i) of Fin r \<Rightarrow> Inr (Fin r) | _ \<Rightarrow> Inl OverflowError)"

fun to_float :: "pynum \<Rightarrow> error + double" where
  "to_float (PInt i) = float_of_int i"
| "to_float (PFloat d) = Inr d"

fun py_add :: "pynum \<Rightarrow> pynum \<Rightarrow> error + pynum" where
  "py_add (PInt a) (PInt b) = Inr (PInt (a + b))"
| "py_add x y = bind (to_float x) (\<lambda>a. bind (to_float y) (\<lambda>b. Inr (PFloat (fadd a b))))"

fun py_sub :: "pynum \<Rightarrow> pynum \<Rightarrow> error + pynum" where
  "py_sub (PInt a) (PInt b) = Inr (PInt (a - b))"
| "py_sub x y = bind (to_float x) (\<lambda>a. bind (to_float y) (\<lambda>b. Inr (PFloat (fsub a b))))"

fun py_mul :: "pynum \<Rightarrow> pynum \<Rightarrow> error + pynum" where
  "py_mul (PInt a) (PInt b) = Inr (PInt (a * b))"
| "py_mul x y = bind (to_float x) (\<lambda>a. bind (to_float y) (\<lambda>b. Inr (PFloat (fmul a b))))"

text \<open>
  True division \<open>/\<close>. Of two ints it is the correctly rounded quotient; a zero divisor
  raises ZeroDivisionError, whatever the types.
\<close>

fun py_truediv :: "pynum \<Rightarrow> pynum \<Rightarrow> error + pynum" where
  "py_truediv (PInt a) (PInt b) =
     (if b = 0 then Inl ZeroDivisionError
      else case fl (of_int a / of_int b) of
             Fin r \<Rightarrow> Inr (PFloat (Fin r))
           | _ \<Rightarrow> Inl OverflowError)"
| "py_truediv x y =
     bind (to_float x) (\<lambda>a. bind (to_float y) (\<lambda>b.
       if b = Fin 0 then Inl ZeroDivisionError else Inr (PFloat (fdiv a b))))"

text \<open>Comparison \<open>>\<close>: Python compares an int with a float by value, without rounding.\<close>

fun exact_value :: "pynum \<Rightarrow> double" where
  "exact_value (PInt i) = Fin (of_int i)"
| "exact_value (PFloat d) = d"

definition py_gt :: "pynum \<Rightarrow> pynum \<Rightarrow> bool" where
  "py_gt x y = fgt (exact_value x) (exact_value y)"

section \<open>Unit economics and revenue modelling (Anthropic case study, notebook 04)\<close>

text \<open>
  The first code cell: revenue, cost and gross margin of a token mix, from the price and
  cost per million tokens.
\<close>

record revenue_model =
  revenue :: pynum
  cost :: pynum
  gross_margin :: pynum

definition revenue_cell ::
  "pynum \<Rightarrow> pynum \<Rightarrow> pynum \<Rightarrow> pynum \<Rightarrow> pynum \<Rightarrow> pynum \<Rightarrow> error + revenue_model" where
  "revenue_cell price_input_per_million price_output_per_million
       cost_input_per_million cost_output_per_million input_tokens output_tokens =
     bind (py_truediv input_tokens (PInt 1000000)) (\<lambda>i.
     bind (py_mul i price_input_per_million) (\<lambda>ri.
     bind (py_truediv output_tokens (PInt 1000000)) (\<lambda>out.
     bind (py_mul out price_output_per_million) (\<lambda>ro.
     bind (py_add ri ro) (\<lambda>rev.
     bind (py_truediv input_tokens (PInt 1000000)) (\<lambda>i'.
     bind (py_mul i' cost_input_per_million) (\<lambda>ci.
     bind (py_truediv output_tokens (PInt 1000000)) (\<lambda>out'.
     bind (py_mul out' cost_output_per_million) (\<lambda>co.
     bind (py_add ci co) (\<lambda>cst.
     bind (py_sub rev cst) (\<lambda>d.
     bind (py_truediv d rev) (\<lambda>m.
     bind (py_mul m (PInt 100)) (\<lambda>gm.
       Inr \<lparr>revenue = rev, cost = cst, gross_margin = gm\<rparr>)))))))))))))"

text \<open>The second code cell: annual revenue of 1000 customers at 100M tokens a month.\<close>

definition annual_revenue_cell :: "pynum \<Rightarrow> pynum \<Rightarrow> error + pynum" where
  "annual_revenue_cell price_input_per_million price_output_per_million =
     bind (py_truediv (PInt 2) (PInt 3)) (\<lambda>a.
     bind (py_mul a price_input_per_million) (\<lambda>x.
     bind (py_truediv (PInt 1) (PInt 3)) (\<lambda>b.
     bind (py_mul b price_output_per_million) (\<lambda>y.
     bind (py_add x y) (\<lambda>s.
     bind (py_mul s (PInt 100)) (\<lambda>monthly_revenue_per_customer.
     bind (py_mul monthly_revenue_per_customer (PInt 12)) (\<lambda>t.
       py_mul t (PInt 1000))))))))"

text \<open>The value the last cell prints: \<open>annual_revenue / 1e6\<close>.\<close>

definition annual_revenue_millions :: "pynum \<Rightarrow> pynum \<Rightarrow> error + pynum" where
  "annual_revenue_millions price_input_per_million price_output_per_million =
     bind (annual_revenue_cell price_input_per_million price_output_per_million) (\<lambda>r.
       py_truediv r (PFloat (fl 1000000)))"

section \<open>Unit economics deep dive (Cohere case study, notebook 07)\<close>

text \<open>The literal dictionary \<open>assumptions\<close>; all costs in USD.\<close>

record assumptions =
  inference_cost_per_1k_tokens :: pynum
  fine_tune_cost_per_1k_tokens :: pynum
  revenue_per_1k_tokens :: pynum
  support_cost_per_customer :: pynum
  customer_acquisition_cost :: pynum

definition assumptions :: assumptions where
  "assumptions =
     \<lparr>inference_cost_per_1k_tokens = PFloat (fl (1 / 1000)),
      fine_tune_cost_per_1k_tokens = PFloat (fl (15 / 10)),
      revenue_per_1k_tokens = PFloat (fl (2 / 1000)),
      support_cost_per_customer = PInt 200,
      customer_acquisition_cost = PInt 400\<rparr>"

text \<open>
  A row of the \<open>cohorts\<close> table as \<open>DataFrame.apply(..., axis=1)\<close> passes it: a Series
  of Python objects, since the \<open>name\<close> column makes the row's dtype \<open>object\<close>.
\<close>

record cohort =
  name :: string
  monthly_tokens :: pynum
  fine_tune_tokens :: pynum
  payment :: pynum
  churn :: pynum
  count :: pynum

definition cohorts :: "cohort list" where
  "cohorts =
     [\<lparr>name = ''Indie'', monthly_tokens = PInt 500000, fine_tune_tokens = PInt 0,
       payment = PInt 0, churn = PFloat (fl (10 / 100)), count = PInt 1000\<rparr>,
      \<lparr>name = ''SMB'', monthly_tokens = PInt 10000000, fine_tune_tokens = PInt 50000,
       payment = PInt 1500, churn = PFloat (fl (5 / 100)), count = PInt 200\<rparr>,
      \<lparr>name = ''Enterprise'', monthly_tokens = PInt 100000000, fine_tune_tokens = PInt 500000,
       payment = PInt 25000, churn = PFloat (fl (2 / 100)), count = PInt 20\<rparr>]"

text \<open>
  The Series the function returns. Its three values are numbers of which
  \<open>total_cost\<close> and \<open>margin\<close> are floats, so pandas gives it the dtype float64 and
  an int among them (the \<open>0\<close> of the guard) is stored as a float.
\<close>

record unit_economics =
  total_cost :: double
  margin :: double
  gross_margin_pct :: double

definition calculate_unit_economics :: "assumptions \<Rightarrow> cohort \<Rightarrow> error + unit_economics" where
  "calculate_unit_economics a row =
     bind (py_truediv (monthly_tokens row) (PInt 1000)) (\<lambda>mk.
     bind (py_mul mk (inference_cost_per_1k_tokens a)) (\<lambda>token_cost.
     bind (py_truediv (fine_tune_tokens row) (PInt 1000)) (\<lambda>fk.
     bind (py_mul fk (fine_tune_cost_per_1k_tokens a)) (\<lambda>fine_tune_cost.
     bind (py_add token_cost fine_tune_cost) (\<lambda>s.
     bind (py_add s (support_cost_per_customer a)) (\<lambda>total.
     bind (py_sub (payment row) total) (\<lambda>mrg.
     bind (if py_gt (payment row) (PInt 0)
           then bind (py_truediv mrg (payment row)) (\<lambda>m. py_mul m (PInt 100))
           else Inr (PInt 0)) (\<lambda>pct.
     bind (to_float total) (\<lambda>t.
     bind (to_float mrg) (\<lambda>m.
     bind (to_float pct) (\<lambda>p.
       Inr \<lparr>total_cost = t, margin = m, gross_margin_pct = p\<rparr>)))))))))))"

text \<open>
  \<open>cohorts.apply(calculate_unit_economics, axis=1)\<close>: the function is called on the
  rows in order, and the first exception ends the cell.
\<close>

fun apply_rows :: "('a \<Rightarrow> error + 'b) \<Rightarrow> 'a list \<Rightarrow> error + 'b list" where
  "apply_rows f [] = Inr []"
| "apply_rows f (r # rs) = bind (f r) (\<lambda>e. bind (apply_rows f rs) (\<lambda>es. Inr (e # es)))"


text \<open>
  The break-even cell. \<open>Series.mean\<close> of a short float64 column: NumPy adds fewer than
  eight values in order, and pandas divides the sum by the count. The division by the
  mean is NumPy's (a Python int divided by a \<open>numpy.float64\<close>), so a zero mean gives an
  infinity and no exception.
\<close>

definition mean_seq :: "double list \<Rightarrow> double" where
  "mean_seq xs = fdiv (foldl fadd (Fin 0) xs) (fl (of_nat (length xs)))"

definition breakeven_customers :: "assumptions \<Rightarrow> unit_economics list \<Rightarrow> error + double" where
  "breakeven_customers a es =
     (let avg_monthly_margin = mean_seq (map margin es)
      in bind (to_float (customer_acquisition_cost a)) (\<lambda>c. Inr (fdiv c avg_monthly_margin)))"

section \<open>Product tiering (Cohere case study, notebook 03)\<close>

text \<open>
  A numeric pandas column has one dtype: int64 (arithmetic wraps around silently) or
  float64.
\<close>

datatype column = IntCol "int list" | FloatCol "double list"

definition wrap64 :: "int \<Rightarrow> int" where
  "wrap64 x = (x + 2 ^ 63) mod 2 ^ 64 - 2 ^ 63"

text \<open>The conversion of an int64 to float64: to the nearest double.\<close>

definition int64_to_float :: "int \<Rightarrow> double" where
  "int64_to_float i = fl (of_int i)"

fun col_mul :: "column \<Rightarrow> column \<Rightarrow> column" where
  "col_mul (IntCol a) (IntCol b) = IntCol (map2 (\<lambda>x y. wrap64 (x * y)) a b)"
| "col_mul (IntCol a) (FloatCol b) = FloatCol (map2 (\<lambda>x y. fmul (int64_to_float x) y) a b)"
| "col_mul (FloatCol a) (IntCol b) = FloatCol (map2 (\<lambda>x y. fmul x (int64_to_float y)) a b)"
| "col_mul (FloatCol a) (FloatCol b) = FloatCol (map2 fmul a b)"

text \<open>A column times a Python int that fits int64, such as the \<open>12\<close> of the notebook.\<close>

fun col_mul_int :: "column \<Rightarrow> int \<Rightarrow> column" where
  "col_mul_int (IntCol a) k = IntCol (map (\<lambda>x. wrap64 (x * k)) a)"
| "col_mul_int (FloatCol a) k = FloatCol (map (\<lambda>x. fmul x (int64_to_float k)) a)"

text \<open>
  \<open>Series.map(dict)\<close>: a key missing from the dictionary gives NaN, and one NaN makes
  the whole column float64.
\<close>

definition series_map :: "(string \<rightharpoonup> int) \<Rightarrow> string list \<Rightarrow> column" where
  "series_map d keys =
     (if list_all (\<lambda>k. d k \<noteq> None) keys
      then IntCol (map (\<lambda>k. the (d k)) keys)
      else FloatCol (map (\<lambda>k. case d k of None \<Rightarrow> NaN | Some v \<Rightarrow> int64_to_float v) keys))"

record tier_frame =
  Tier :: "string list"
  Num_Customers :: column
  Price :: column
  Monthly_Revenue :: column
  Annual_Revenue :: column

text \<open>The two literal dictionaries, in their insertion order.\<close>

definition customers :: "(string \<times> int) list" where
  "customers = [(''Starter'', 5000), (''Growth'', 1200), (''Pro'', 300), (''Enterprise'', 50)]"

definition pricing :: "string \<rightharpoonup> int" where
  "pricing = map_of [(''Starter'', 10), (''Growth'', 250), (''Pro'', 800), (''Enterprise'', 5000)]"

text \<open>The first code cell: the frame of the dictionary's items and its three new columns.\<close>

definition product_tiering :: "(string \<times> int) list \<Rightarrow> (string \<rightharpoonup> int) \<Rightarrow> tier_frame" where
  "product_tiering cs pr =
     (let tier = map fst cs;
          num = IntCol (map snd cs);
          price = series_map pr tier;
          monthly = col_mul num price;
          annual = col_mul_int monthly 12
      in \<lparr>Tier = tier, Num_Customers = num, Price = price,
          Monthly_Revenue = monthly, Annual_Revenue = annual\<rparr>)"

section \<open>What running a notebook does to the world\<close>

text \<open>
  The world a notebook runs in: the files on disk, the directories that exist, and the
  outputs rendered inline under the cells, in order.
\<close>

record figure =
  fig_title :: string
  fig_labels :: "string list"
  fig_heights :: column

datatype rendering = Rendered_table | Rendered_text | Rendered_figure | Rendered_error

datatype io_error = FileNotFoundError

record world =
  files :: "string \<rightharpoonup> figure"
  dirs :: "string set"
  rendered :: "rendering list"

definition render :: "rendering \<Rightarrow> world \<Rightarrow> world" where
  "render out w = w\<lparr>rendered := rendered w @ [out]\<rparr>"

text \<open>The directory part of a path: everything before its last slash.\<close>

definition dirname :: "string \<Rightarrow> string" where
  "dirname p = rev (tl (dropWhile (\<lambda>c. c \<noteq> CHR ''/'') (rev p)))"

text \<open>
  \<open>plt.savefig(path)\<close> writes the current figure to \<open>path\<close>, replacing a file that is
  there; it raises FileNotFoundError when the directory does not exist.
\<close>

definition savefig :: "string \<Rightarrow> figure \<Rightarrow> world \<Rightarrow> io_error + world" where
  "savefig path fig w =
     (if dirname path \<in> dirs w then Inr (w\<lparr>files := (files w)(path \<mapsto> fig)\<rparr>)
      else Inl FileNotFoundError)"

text \<open>
  The second code cell of notebook 03: a bar chart of the annual revenue by tier, saved
  and then shown. An exception in \<open>savefig\<close> ends the cell before \<open>plt.show()\<close>; the
  notebook renders the traceback.
\<close>

definition tiering_figure :: "tier_frame \<Rightarrow> figure" where
  "tiering_figure df =
     \<lparr>fig_title = ''Annual Revenue by Tier'', fig_labels = Tier df,
      fig_heights = Annual_Revenue df\<rparr>"

definition tiering_plot_cell :: "tier_frame \<Rightarrow> world \<Rightarrow> world" where
  "tiering_plot_cell df w =
     (case savefig ''../report/graphics/tiering_revenue.png'' (tiering_figure df) w of
        Inl e \<Rightarrow> render Rendered_error w
      | Inr w' \<Rightarrow> render Rendered_figure w')"

text \<open>
  The notebooks of the repository, and for each the effects of its code cells in order
  (a displayed frame, a \<open>print\<close>, a shown figure, the traceback of a cell that does not
  parse). Markdown cells do nothing.
\<close>

datatype notebook =
    Product_Tiering_03
  | Product_Tiering_Strategy_06
  | Unit_Economics_07
  | Competitive_Analysis
  | Strategic_GTM_09
  | Customer_Profitability
  | Market_Overview
  | GTM_Pricing
  | Revenue_Modeling_04

fun renders :: "rendering list \<Rightarrow> world \<Rightarrow> world" where
  "renders [] w = w"
| "renders (out # outs) w = renders outs (render out w)"

fun run_notebook :: "notebook \<Rightarrow> world \<Rightarrow> world" where
  "run_notebook Product_Tiering_03 w =
     tiering_plot_cell (product_tiering customers pricing) (render Rendered_table w)"
| "run_notebook Product_Tiering_Strategy_06 w = w"
| "run_notebook Unit_Economics_07 w =
     renders [Rendered_table, Rendered_table, Rendered_text, Rendered_figure, Rendered_text] w"
| "run_notebook Competitive_Analysis w = render Rendered_table w"
| "run_notebook Strategic_GTM_09 w = w"
| "run_notebook Customer_Profitability w =
     renders [Rendered_error, Rendered_table, Rendered_error, Rendered_table, Rendered_figure,
              Rendered_error, Rendered_table, Rendered_figure, Rendered_error, Rendered_table,
              Rendered_figure] w"
| "run_notebook Market_Overview w = w"
| "run_notebook GTM_Pricing w = renders [Rendered_text, Rendered_text, Rendered_text, Rendered_text] w"
| "run_notebook Revenue_Modeling_04 w =
     renders [Rendered_text, Rendered_text, Rendered_text, Rendered_text] w"

section \<open>Customer profitability modelling (Anthropic case study)\<close>

text \<open>
  The library calls of the data-setup cell. NumPy's global generator is a piece of state
  of type \<open>'st\<close>; each draw takes the state and returns the drawn array with the next
  state. The code of the generator is not part of the repository, so the calls are
  parameters of the model, and what a theorem needs of them is stated as a hypothesis.
  \<open>series_mean\<close> is the mean pandas computes for a group of a float64 column.
\<close>

record 'st library =
  random_seed :: "nat \<Rightarrow> 'st \<Rightarrow> 'st"
  random_choice :: "string list \<Rightarrow> nat \<Rightarrow> double list \<Rightarrow> 'st \<Rightarrow> string list \<times> 'st"
  random_normal :: "double \<Rightarrow> double \<Rightarrow> nat \<Rightarrow> 'st \<Rightarrow> double list \<times> 'st"
  random_uniform :: "double \<Rightarrow> double \<Rightarrow> nat \<Rightarrow> 'st \<Rightarrow> double list \<times> 'st"
  random_randint :: "int \<Rightarrow> int \<Rightarrow> nat \<Rightarrow> 'st \<Rightarrow> int list \<times> 'st"
  series_mean :: "double list \<Rightarrow> double"

text \<open>\<open>np.random.seed(n)\<close> re-initialises the generator: the old state is forgotten.\<close>

definition seed_resets :: "'st library \<Rightarrow> bool" where
  "seed_resets lib = (\<forall>n s s'. random_seed lib n s = random_seed lib n s')"

text \<open>
  A draw of \<open>size=n\<close> returns \<open>n\<close> values, and a normal or uniform draw with finite
  parameters returns no NaN.
\<close>

definition draws_sized :: "'st library \<Rightarrow> bool" where
  "draws_sized lib =
     (\<forall>n s. (\<forall>xs p. length (fst (random_choice lib xs n p s)) = n)
          \<and> (\<forall>loc scale. length (fst (random_normal lib loc scale n s)) = n)
          \<and> (\<forall>lo hi. length (fst (random_uniform lib lo hi n s)) = n)
          \<and> (\<forall>lo hi. length (fst (random_randint lib lo hi n s)) = n))"

definition draws_not_nan :: "'st library \<Rightarrow> bool" where
  "draws_not_nan lib =
     (\<forall>n s loc scale. isfinite loc \<and> isfinite scale \<longrightarrow>
        (\<forall>x \<in> set (fst (random_normal lib loc scale n s)). \<not> isnan x))"

record customer =
  Customer_ID :: int
  Segment :: string
  Annual_Revenue :: double
  Gross_Margin :: double
  CAC :: double
  Retention_Years :: int

record customer_cltv = customer +
  CLTV :: double

record customer_ratio = customer_cltv +
  CLTV_CAC_Ratio :: double

text \<open>
  \<open>pd.DataFrame(data)\<close> of a dictionary of columns: ValueError unless all columns have
  the same length.
\<close>

definition DataFrame ::
  "int list \<Rightarrow> string list \<Rightarrow> double list \<Rightarrow> double list \<Rightarrow> double list \<Rightarrow> int list
     \<Rightarrow> error + customer list" where
  "DataFrame ids seg ar gm cac ry =
     (let n = length ids
      in if length seg = n \<and> length ar = n \<and> length gm = n \<and> length cac = n \<and> length ry = n
         then Inr (map (\<lambda>i. \<lparr>Customer_ID = ids ! i, Segment = seg ! i, Annual_Revenue = ar ! i,
                              Gross_Margin = gm ! i, CAC = cac ! i, Retention_Years = ry ! i\<rparr>)
                       [0..<n])
         else Inl ValueError)"

text \<open>\<open>Series.clip(lower=lo)\<close>: a value below \<open>lo\<close> becomes \<open>lo\<close>; NaN stays NaN.\<close>

definition clip_lower :: "double \<Rightarrow> double \<Rightarrow> double" where
  "clip_lower lo x = (if isnan x \<or> fge x lo then x else lo)"

text \<open>The two cleaning assignments that end the data-setup cell.\<close>

definition clean :: "customer list \<Rightarrow> customer list" where
  "clean df =
     (let df1 = map (\<lambda>r. r\<lparr>Annual_Revenue := clip_lower (Fin 20000) (customer.Annual_Revenue r)\<rparr>) df
      in map (\<lambda>r. r\<lparr>CAC := clip_lower (Fin 5000) (CAC r)\<rparr>) df1)"

definition n_customers :: nat where
  "n_customers = 150"

definition segments :: "string list" where
  "segments = [''Startup'', ''Enterprise'', ''Government'']"

text \<open>
  The data-setup cell. The values of the dictionary \<open>data\<close> are evaluated in the order
  they are written, each draw starting from the state the one before it left.
\<close>

definition data_setup :: "'st library \<Rightarrow> 'st \<Rightarrow> error + customer list \<times> 'st" where
  "data_setup lib s0 =
     (let s1 = random_seed lib 42 s0;
          ids = map int [1..<n_customers + 1];
          (segment, s2) =
             random_choice lib segments n_customers [fl (5 / 10), fl (3 / 10), fl (2 / 10)] s1;
          (annual_revenue, s3) = random_normal lib (fl 100000) (fl 30000) n_customers s2;
          (gross_margin, s4) = random_uniform lib (fl (6 / 10)) (fl (85 / 100)) n_customers s3;
          (cac, s5) = random_normal lib (fl 20000) (fl 5000) n_customers s4;
          (retention_years, s6) = random_randint lib 1 6 n_customers s5
      in bind (DataFrame ids segment (map np_round2 annual_revenue) (map np_round2 gross_margin)
                 (map np_round2 cac) retention_years)
           (\<lambda>df. Inr (clean df, s6)))"

text \<open>
  \<open>df['CLTV'] = (df['Annual_Revenue'] * df['Gross_Margin']) * df['Retention_Years']\<close>
  followed by \<open>df['CLTV'] = df['CLTV'].round(2)\<close>, row by row.
\<close>

definition cltv_of :: "customer \<Rightarrow> double" where
  "cltv_of r =
     np_round2 (fmul (fmul (customer.Annual_Revenue r) (Gross_Margin r))
                     (int64_to_float (Retention_Years r)))"

definition cltv_step :: "customer list \<Rightarrow> customer_cltv list" where
  "cltv_step df =
     map (\<lambda>r. \<lparr>Customer_ID = Customer_ID r, Segment = Segment r,
                Annual_Revenue = customer.Annual_Revenue r, Gross_Margin = Gross_Margin r,
                CAC = CAC r, Retention_Years = Retention_Years r, CLTV = cltv_of r\<rparr>) df"

text \<open>\<open>df['CLTV_CAC_Ratio'] = (df['CLTV'] / df['CAC']).round(2)\<close>, an unguarded division.\<close>

definition ratio_step :: "customer_cltv list \<Rightarrow> customer_ratio list" where
  "ratio_step df =
     map (\<lambda>r. \<lparr>Customer_ID = Customer_ID r, Segment = Segment r,
                Annual_Revenue = customer.Annual_Revenue r, Gross_Margin = Gross_Margin r,
                CAC = CAC r, Retention_Years = Retention_Years r, CLTV = CLTV r,
                CLTV_CAC_Ratio = np_round2 (fdiv (CLTV r) (CAC r))\<rparr>) df"






text \<open>
  A library whose draws are constant and whose seeding stores the seed. It meets the
  contracts above, which are therefore satisfiable.
\<close>

definition constant_library :: "nat library" where
  "constant_library =
     \<lparr>random_seed = (\<lambda>n s. n),
      random_choice = (\<lambda>xs n p s. (replicate n ''Startup'', Suc s)),
      random_normal = (\<lambda>loc scale n s. (replicate n loc, Suc s)),
      random_uniform = (\<lambda>lo hi n s. (replicate n lo, Suc s)),
      random_randint = (\<lambda>lo hi n s. (replicate n lo, Suc s)),
      series_mean = (\<lambda>xs. Fin 0)\<rparr>"

section \<open>Properties of the rounding\<close>

text \<open>
  Known binary64 values, as a check of the model: the doubles nearest to 0.1, 0.001 and
  2/3, the sum \<open>0.1 + 0.2\<close> (which is not the double nearest to 0.3), and the double
  nearest to 95.8, the margin percentage notebook 07 shows for the Enterprise cohort.
\<close>

lemma binary64_examples:
  "fl (1 / 10) = Fin (3602879701896397 / 36028797018963968)"
  "fl (1 / 1000) = Fin (1152921504606847 / 1152921504606846976)"
  "fl (2 / 3) = Fin (6004799503160661 / 9007199254740992)"
  "fadd (fl (1 / 10)) (fl (2 / 10)) = Fin (1351079888211149 / 4503599627370496)"
  "fl (3 / 10) = Fin (5404319552844595 / 18014398509481984)"
  "fl (958 / 10) = Fin (6741325692220211 / 70368744177664)"
  by code_simp+


lemma pow2_pos: "0 < pow2 k"
  by (simp add: pow2_def)

lemma pow2_mono: "a \<le> b \<Longrightarrow> pow2 a \<le> pow2 b"
proof -
  assume ab: "a \<le> b"
  have "pow2 k = 2 powi k" for k
    by (simp add: pow2_def power_int_def field_simps)
  then show ?thesis using ab by (simp add: power_int_increasing)
qed

lemma expo_less:
  assumes "\<bar>x\<bar> < 2 ^ k" and "0 < k"
  shows "expo x < int k"
proof (cases "1 \<le> \<bar>x\<bar>")
  case True
  have "\<lfloor>\<bar>x\<bar>\<rfloor> < 2 ^ k"
    using assms(1) by (simp add: floor_less_iff)
  then have "bitlen \<lfloor>\<bar>x\<bar>\<rfloor> \<le> int k"
    by (simp add: bitlen_le_iff_power)
  then show ?thesis using True by (simp add: expo_def)
next
  case False
  have "0 \<le> bitlen (\<lceil>1 / \<bar>x\<bar>\<rceil> - 1)" by (rule bitlen_nonneg)
  then show ?thesis using False assms(2) by (simp add: expo_def)
qed

lemma round_half_even_err: "\<bar>of_int (round_half_even y) - y\<bar> \<le> 1 / 2"
proof -
  have "of_int \<lfloor>y\<rfloor> \<le> y" "y < of_int \<lfloor>y\<rfloor> + 1" by linarith+
  then show ?thesis
    by (auto simp: round_half_even_def Let_def abs_le_iff)
qed


lemma pow2_nat: "pow2 (int k) = 2 ^ k"
  by (simp add: pow2_def)

lemma rnd64_err:
  "\<bar>rnd64 x - x\<bar> \<le> pow2 (max (expo x) (- 1022) - 52) / 2"
proof (cases "x = 0")
  case True
  then show ?thesis using pow2_pos [of "max (expo x) (- 1022) - 52"] by (simp add: rnd64_def)
next
  case False
  define p where "p = pow2 (max (expo x) (- 1022) - 52)"
  have p: "0 < p" unfolding p_def by (rule pow2_pos)
  have "rnd64 x - x = (of_int (round_half_even (x / p)) - x / p) * p"
    using False p by (simp add: rnd64_def Let_def p_def algebra_simps)
  then have "\<bar>rnd64 x - x\<bar> = \<bar>of_int (round_half_even (x / p)) - x / p\<bar> * p"
    using p by (simp add: abs_mult)
  also have "\<dots> \<le> (1 / 2) * p"
    using round_half_even_err [of "x / p"] p by (intro mult_right_mono) auto
  finally show ?thesis by (simp add: p_def)
qed

lemma fl_finite:
  assumes "\<bar>x\<bar> < 2 ^ k" and "0 < k" and "k < 1024"
  shows "fl x = Fin (rnd64 x)"
proof -
  have e: "expo x < int k" using assms(1,2) by (rule expo_less)
  have "max (expo x) (- 1022) - 52 \<le> int k" using e by simp
  then have "pow2 (max (expo x) (- 1022) - 52) \<le> 2 ^ k"
    using pow2_mono [of "max (expo x) (- 1022) - 52" "int k"] by (simp add: pow2_nat)
  then have "\<bar>rnd64 x\<bar> < 2 ^ k + 2 ^ k"
    using rnd64_err [of x] assms(1) by linarith
  then have "\<bar>rnd64 x\<bar> < 2 ^ (Suc k)" by simp
  then have "expo (rnd64 x) < int (Suc k)" by (rule expo_less) simp
  then have "expo (rnd64 x) < 1024" using assms(3) by simp
  then show ?thesis by (simp add: fl_def Let_def)
qed

lemma float_of_int_int64:
  assumes "\<bar>i\<bar> \<le> 2 ^ 63"
  shows "float_of_int i = Inr (Fin (rnd64 (of_int i)))"
proof -
  have "\<bar>rat_of_int i\<bar> \<le> 2 ^ 63"
    using assms by (metis of_int_abs of_int_le_iff of_int_numeral of_int_power)
  then have "\<bar>rat_of_int i\<bar> < 2 ^ 64" by simp
  then have "fl (of_int i) = Fin (rnd64 (of_int i))" by (rule fl_finite) simp_all
  then show ?thesis by (simp add: float_of_int_def)
qed

lemma expo_lower:
  assumes "1 \<le> \<bar>x\<bar>"
  shows "pow2 (expo x) \<le> \<bar>x\<bar>" and "0 \<le> expo x"
proof -
  define n where "n = \<lfloor>\<bar>x\<bar>\<rfloor>"
  have n: "0 < n" using assms by (simp add: n_def)
  have b: "1 \<le> bitlen n" using n bitlen_eq_zero_iff [of n] bitlen_nonneg [of n] by linarith
  show e: "0 \<le> expo x" using assms b by (simp add: expo_def n_def)
  have "2 ^ nat (bitlen n - 1) \<le> n" using bitlen_bounds [OF n] by simp
  then have "rat_of_int (2 ^ nat (bitlen n - 1)) \<le> rat_of_int n" by (simp only: of_int_le_iff)
  also have "\<dots> \<le> \<bar>x\<bar>" by (simp add: n_def)
  finally have "2 ^ nat (bitlen n - 1) \<le> \<bar>x\<bar>" by simp
  then show "pow2 (expo x) \<le> \<bar>x\<bar>" using assms b by (simp add: expo_def n_def pow2_def)
qed

lemma rnd64_nonzero:
  assumes "1 \<le> \<bar>x\<bar>"
  shows "rnd64 x \<noteq> 0"
proof -
  have e: "0 \<le> expo x" and l: "pow2 (expo x) \<le> \<bar>x\<bar>" using expo_lower [OF assms] by simp_all
  have q: "max (expo x) (- 1022) - 52 \<le> expo x" using e by simp
  have "pow2 (max (expo x) (- 1022) - 52) \<le> pow2 (expo x)" using q by (rule pow2_mono)
  then have "pow2 (max (expo x) (- 1022) - 52) / 2 < \<bar>x\<bar>"
    using l pow2_pos [of "max (expo x) (- 1022) - 52"] by linarith
  then have "\<bar>rnd64 x - x\<bar> < \<bar>x\<bar>" using rnd64_err [of x] by linarith
  then show ?thesis by auto
qed

lemma rnd64_0: "rnd64 0 = 0" by (simp add: rnd64_def)
lemma expo_0: "expo 0 = 0" by (simp add: expo_def bitlen_eq_zero_iff)
lemma fl_0: "fl 0 = Fin 0" by (simp add: fl_def rnd64_0 expo_0)

lemma fl_small_int:
  "fl 100 = Fin 100" "fl 200 = Fin 200" "fl 1000 = Fin 1000"
  by code_simp+

section \<open>Exceptions and the operators\<close>

lemma bind_Inr_iff: "bind m f = Inr y \<longleftrightarrow> (\<exists>v. m = Inr v \<and> f v = Inr y)"
  by (cases m) (simp_all add: bind_def)

lemma bind_Inl_iff: "bind m f = Inl e \<longleftrightarrow> m = Inl e \<or> (\<exists>v. m = Inr v \<and> f v = Inl e)"
  by (cases m) (simp_all add: bind_def)

lemma bind_Inr [simp]: "bind (Inr v) f = f v"
  by (simp add: bind_def)

lemma bind_Inl [simp]: "bind (Inl e) f = Inl e"
  by (simp add: bind_def)

lemma float_of_int_not_zde: "float_of_int i \<noteq> Inl ZeroDivisionError"
  by (simp add: float_of_int_def split: double.splits)

lemma to_float_not_zde: "to_float x \<noteq> Inl ZeroDivisionError"
  by (cases x) (simp_all add: float_of_int_not_zde)

lemma float_of_int_nonzero:
  assumes "i \<noteq> 0"
  shows "float_of_int i \<noteq> Inr (Fin 0)"
proof -
  have "1 \<le> \<bar>rat_of_int i\<bar>" using assms
    by (metis of_int_1_le_iff of_int_abs zero_less_abs_iff int_one_le_iff_zero_less)
  then have "rnd64 (rat_of_int i) \<noteq> 0" by (rule rnd64_nonzero)
  then show ?thesis by (auto simp: float_of_int_def fl_def Let_def split: double.splits if_splits)
qed

section \<open>The row function of notebook 07\<close>

lemma fl_int64:
  assumes "\<bar>i\<bar> \<le> 2 ^ 63"
  shows "fl (rat_of_int i) = Fin (rnd64 (rat_of_int i))"
    and "fl (rat_of_int i / 1000) = Fin (rnd64 (rat_of_int i / 1000))"
proof -
  have "\<bar>rat_of_int i\<bar> \<le> 2 ^ 63"
    using assms by (metis of_int_abs of_int_le_iff of_int_numeral of_int_power)
  then have a: "\<bar>rat_of_int i\<bar> < 2 ^ 64" by simp
  then show "fl (rat_of_int i) = Fin (rnd64 (rat_of_int i))" by (rule fl_finite) simp_all
  have "\<bar>rat_of_int i / 1000\<bar> \<le> \<bar>rat_of_int i\<bar>" by simp
  then have "\<bar>rat_of_int i / 1000\<bar> < 2 ^ 64" using a by linarith
  then show "fl (rat_of_int i / 1000) = Fin (rnd64 (rat_of_int i / 1000))" by (rule fl_finite) simp_all
qed

lemma float_of_int_small:
  "float_of_int 100 = Inr (Fin 100)" "float_of_int 200 = Inr (Fin 200)"
  "float_of_int 1000 = Inr (Fin 1000)" "float_of_int 0 = Inr (Fin 0)"
  using fl_small_int fl_0 by (simp_all add: float_of_int_def)

lemma py_gt_int: "py_gt (PInt p) (PInt 0) = (0 < p)"
  by (simp add: py_gt_def fgt_def)

lemma calculate_unit_economics_int64:
  assumes r: "monthly_tokens r = PInt mt" "fine_tune_tokens r = PInt ft" "payment r = PInt p"
    and b: "\<bar>mt\<bar> \<le> 2 ^ 63" "\<bar>ft\<bar> \<le> 2 ^ 63" "\<bar>p\<bar> \<le> 2 ^ 63"
  shows "\<exists>res. calculate_unit_economics assumptions r = Inr res
     \<and> total_cost res =
          fadd (fadd (fmul (fl (of_int mt / 1000)) (fl (1 / 1000)))
                     (fmul (fl (of_int ft / 1000)) (fl (15 / 10)))) (Fin 200)
     \<and> margin res = fsub (fl (of_int p)) (total_cost res)
     \<and> gross_margin_pct res =
          (if 0 < p then fmul (fdiv (margin res) (fl (of_int p))) (Fin 100) else Fin 0)"
proof -
  note fm = fl_int64 [OF b(1)] and ff = fl_int64 [OF b(2)] and fp = fl_int64 [OF b(3)]
  have nz: "0 < p \<Longrightarrow> rnd64 (rat_of_int p) \<noteq> 0"
    using float_of_int_nonzero [of p] fp(1) by (simp add: float_of_int_def)
  show ?thesis
    using nz
    by (simp add: calculate_unit_economics_def assumptions_def r fm ff fp float_of_int_small
        float_of_int_int64 [OF b(3)] py_gt_int)
qed

lemma bind_not_zde:
  "m \<noteq> Inl ZeroDivisionError \<Longrightarrow> (\<And>v. m = Inr v \<Longrightarrow> f v \<noteq> Inl ZeroDivisionError)
     \<Longrightarrow> bind m f \<noteq> Inl ZeroDivisionError"
  by (cases m) simp_all

lemma py_add_not_zde: "py_add x y \<noteq> Inl ZeroDivisionError"
  by (cases x; cases y) (auto simp: bind_Inl_iff to_float_not_zde float_of_int_not_zde)

lemma py_sub_not_zde: "py_sub x y \<noteq> Inl ZeroDivisionError"
  by (cases x; cases y) (auto simp: bind_Inl_iff to_float_not_zde float_of_int_not_zde)

lemma py_mul_not_zde: "py_mul x y \<noteq> Inl ZeroDivisionError"
  by (cases x; cases y) (auto simp: bind_Inl_iff to_float_not_zde float_of_int_not_zde)

lemma py_truediv_1000_not_zde: "py_truediv x (PInt 1000) \<noteq> Inl ZeroDivisionError"
  by (cases x) (auto simp: bind_Inl_iff float_of_int_small split: double.splits)

lemma py_truediv_positive_not_zde:
  assumes "py_gt y (PInt 0)"
  shows "py_truediv x y \<noteq> Inl ZeroDivisionError"
proof (cases y)
  case (PInt p)
  then have p: "0 < p" using assms by (simp add: py_gt_int)
  then have nz: "float_of_int p \<noteq> Inr (Fin 0)" by (intro float_of_int_nonzero) simp
  show ?thesis using p nz PInt
    by (cases x) (auto simp: bind_Inl_iff float_of_int_not_zde split: double.splits)
next
  case (PFloat d)
  then have "d \<noteq> Fin 0" using assms by (auto simp: py_gt_def fgt_def)
  then show ?thesis using PFloat
    by (cases x) (auto simp: bind_Inl_iff float_of_int_not_zde)
qed

lemma calculate_unit_economics_not_zde:
  "calculate_unit_economics assumptions r \<noteq> Inl ZeroDivisionError"
  unfolding calculate_unit_economics_def
  by (intro bind_not_zde py_truediv_1000_not_zde py_mul_not_zde py_add_not_zde py_sub_not_zde
      to_float_not_zde)
    (auto simp: py_truediv_positive_not_zde py_mul_not_zde bind_Inl_iff)

lemma py_truediv_float: "py_truediv x y = Inr v \<Longrightarrow> \<exists>d. v = PFloat d"
  by (cases x; cases y) (auto simp: bind_Inr_iff split: if_splits double.splits)

lemma py_mul_float: "py_mul (PFloat d) y = Inr v \<Longrightarrow> \<exists>d'. v = PFloat d'"
  by (cases y) (auto simp: bind_Inr_iff)

lemma py_add_float: "py_add (PFloat d) y = Inr v \<Longrightarrow> \<exists>d'. v = PFloat d'"
  by (cases y) (auto simp: bind_Inr_iff)

lemma py_sub_float: "py_sub x (PFloat d) = Inr v \<Longrightarrow> \<exists>d'. v = PFloat d'"
  by (cases x) (auto simp: bind_Inr_iff)

lemma py_truediv_by_float:
  "py_truediv (PFloat m) y = Inr v \<Longrightarrow> \<exists>pf. to_float y = Inr pf \<and> v = PFloat (fdiv m pf)"
  by (cases y) (auto simp: bind_Inr_iff split: if_splits)

lemma calculate_unit_economics_pct:
  assumes "calculate_unit_economics assumptions r = Inr res"
  shows "if py_gt (payment r) (PInt 0)
         then \<exists>pf. to_float (payment r) = Inr pf
                \<and> gross_margin_pct res = fmul (fdiv (margin res) pf) (Fin 100)
         else gross_margin_pct res = Fin 0"
proof -
  from assms obtain mk token_cost fine_tune_cost s total mrg pct t m p where
    1: "py_truediv (monthly_tokens r) (PInt 1000) = Inr mk"
    and 2: "py_mul mk (inference_cost_per_1k_tokens assumptions) = Inr token_cost"
    and 5: "py_add token_cost fine_tune_cost = Inr s"
    and 6: "py_add s (support_cost_per_customer assumptions) = Inr total"
    and 7: "py_sub (payment r) total = Inr mrg"
    and 8: "(if py_gt (payment r) (PInt 0)
           then bind (py_truediv mrg (payment r)) (\<lambda>m. py_mul m (PInt 100))
           else Inr (PInt 0)) = Inr pct"
    and 9: "to_float total = Inr t" "to_float mrg = Inr m" "to_float pct = Inr p"
    and res: "res = \<lparr>total_cost = t, margin = m, gross_margin_pct = p\<rparr>"
    unfolding calculate_unit_economics_def bind_Inr_iff by blast
  from 1 obtain d1 where "mk = PFloat d1" using py_truediv_float by blast
  with 2 obtain d2 where "token_cost = PFloat d2" using py_mul_float by blast
  with 5 obtain d3 where "s = PFloat d3" using py_add_float by blast
  with 6 obtain d4 where "total = PFloat d4" using py_add_float by blast
  with 7 obtain d5 where mrg: "mrg = PFloat d5" using py_sub_float by blast
  show ?thesis
  proof (cases "py_gt (payment r) (PInt 0)")
    case True
    with 8 obtain q where q: "py_truediv mrg (payment r) = Inr q" "py_mul q (PInt 100) = Inr pct"
      by (auto simp: bind_Inr_iff)
    from q(1) mrg obtain pf where pf: "to_float (payment r) = Inr pf" "q = PFloat (fdiv d5 pf)"
      using py_truediv_by_float by blast
    with q(2) have "pct = PFloat (fmul (fdiv d5 pf) (Fin 100))" by (simp add: float_of_int_small)
    with 9 mrg pf res True show ?thesis by auto
  next
    case False
    with 8 have "pct = PInt 0" by simp
    with 9 res False show ?thesis by (simp add: float_of_int_small)
  qed
qed


section \<open>The customer table\<close>

lemma fl_neq_NaN: "fl x \<noteq> NaN"
  by (simp add: fl_def Let_def)

lemma fl_not_nan: "\<not> isnan (fl x)"
  by (simp add: fl_def isnan_def Let_def)

lemma inf_of_sign_not_nan: "s \<noteq> 0 \<Longrightarrow> \<not> isnan (inf_of_sign s)"
  by (simp add: inf_of_sign_def isnan_def)

lemma frint_not_nan: "\<not> isnan x \<Longrightarrow> \<not> isnan (frint x)"
  by (cases x) (simp_all add: isnan_def)

lemma fmul_100_not_nan: "\<not> isnan x \<Longrightarrow> \<not> isnan (fmul x (Fin 100))"
  by (cases x) (auto simp: fl_neq_NaN inf_of_sign_def isnan_def split: double.splits)

lemma fdiv_100_not_nan: "\<not> isnan x \<Longrightarrow> \<not> isnan (fdiv x (Fin 100))"
  by (cases x) (auto simp: fl_neq_NaN inf_of_sign_def isnan_def split: double.splits)

lemma np_round2_not_nan: "\<not> isnan x \<Longrightarrow> \<not> isnan (np_round2 x)"
  unfolding np_round2_def
  by (intro fdiv_100_not_nan frint_not_nan fmul_100_not_nan)

lemma fge_refl: "fge (Fin a) (Fin a)"
  by (simp add: fge_def isnan_def)

lemma clip_lower_ge: "\<not> isnan x \<Longrightarrow> fge (clip_lower (Fin lo) x) (Fin lo)"
  by (simp add: clip_lower_def fge_refl)

lemma clip_lower_not_nan: "\<not> isnan x \<Longrightarrow> \<not> isnan (clip_lower (Fin lo) x)"
  by (simp add: clip_lower_def isnan_def)

lemma fge_positive_nonzero: "fge x (Fin lo) \<Longrightarrow> 0 < lo \<Longrightarrow> x \<noteq> Fin 0"
  by (auto simp: fge_def)

lemma fl_setup_finite:
  "isfinite (fl 100000)" "isfinite (fl 30000)" "isfinite (fl 20000)" "isfinite (fl 5000)"
proof -
  have "fl 100000 = Fin (rnd64 100000)" by (rule fl_finite [where k = 17]) simp_all
  then show "isfinite (fl 100000)" by (simp add: isfinite_def)
  have "fl 30000 = Fin (rnd64 30000)" by (rule fl_finite [where k = 17]) simp_all
  then show "isfinite (fl 30000)" by (simp add: isfinite_def)
  have "fl 20000 = Fin (rnd64 20000)" by (rule fl_finite [where k = 17]) simp_all
  then show "isfinite (fl 20000)" by (simp add: isfinite_def)
  have "fl 5000 = Fin (rnd64 5000)" by (rule fl_finite [where k = 17]) simp_all
  then show "isfinite (fl 5000)" by (simp add: isfinite_def)
qed

text \<open>The frame the data-setup cell leaves, under the size contract of the draws.\<close>

lemma data_setup_frame:
  assumes sized: "draws_sized lib"
  shows "\<exists>seg ar gm cac ry s s' s''.
           data_setup lib s0 =
             Inr (clean (map (\<lambda>i. \<lparr>Customer_ID = int (i + 1), Segment = seg ! i,
                                    Annual_Revenue = np_round2 (ar ! i), Gross_Margin = np_round2 (gm ! i),
                                    CAC = np_round2 (cac ! i), Retention_Years = ry ! i\<rparr>)
                             [0..<150]), s)
         \<and> ar = fst (random_normal lib (fl 100000) (fl 30000) 150 s')
         \<and> cac = fst (random_normal lib (fl 20000) (fl 5000) 150 s'')
         \<and> length ar = 150 \<and> length cac = 150"
proof -
  define s1 where "s1 = random_seed lib 42 s0"
  define d1 where "d1 = random_choice lib segments 150 [fl (5 / 10), fl (3 / 10), fl (2 / 10)] s1"
  define d2 where "d2 = random_normal lib (fl 100000) (fl 30000) 150 (snd d1)"
  define d3 where "d3 = random_uniform lib (fl (6 / 10)) (fl (85 / 100)) 150 (snd d2)"
  define d4 where "d4 = random_normal lib (fl 20000) (fl 5000) 150 (snd d3)"
  define d5 where "d5 = random_randint lib 1 6 150 (snd d4)"
  have len: "length (fst d1) = 150" "length (fst d2) = 150" "length (fst d3) = 150"
    "length (fst d4) = 150" "length (fst d5) = 150"
    using sized unfolding draws_sized_def d1_def d2_def d3_def d4_def d5_def by blast+
  have ids: "map int [1..<151] ! i = int (i + 1)" if "i < 150" for i
    using that by (simp add: nth_map_upt)
  have "data_setup lib s0 =
      bind (DataFrame (map int [1..<151]) (fst d1) (map np_round2 (fst d2)) (map np_round2 (fst d3))
              (map np_round2 (fst d4)) (fst d5))
        (\<lambda>df. Inr (clean df, snd d5))"
    by (simp add: data_setup_def Let_def split_beta n_customers_def
        s1_def d1_def d2_def d3_def d4_def d5_def)
  also have "DataFrame (map int [1..<151]) (fst d1) (map np_round2 (fst d2)) (map np_round2 (fst d3))
              (map np_round2 (fst d4)) (fst d5) =
      Inr (map (\<lambda>i. \<lparr>Customer_ID = int (i + 1), Segment = fst d1 ! i,
                       Annual_Revenue = np_round2 (fst d2 ! i), Gross_Margin = np_round2 (fst d3 ! i),
                       CAC = np_round2 (fst d4 ! i), Retention_Years = fst d5 ! i\<rparr>) [0..<150])"
    using len ids by (simp add: DataFrame_def Let_def)
  finally have "data_setup lib s0 =
      Inr (clean (map (\<lambda>i. \<lparr>Customer_ID = int (i + 1), Segment = fst d1 ! i,
                       Annual_Revenue = np_round2 (fst d2 ! i), Gross_Margin = np_round2 (fst d3 ! i),
                       CAC = np_round2 (fst d4 ! i), Retention_Years = fst d5 ! i\<rparr>) [0..<150]), snd d5)"
    by simp
  then show ?thesis using len d2_def d4_def by blast
qed

section \<open>What the operations change and what they guard\<close>

lemma clean_nth:
  assumes "i < length df"
  shows "clean df ! i =
     (df ! i)\<lparr>Annual_Revenue := clip_lower (Fin 20000) (customer.Annual_Revenue (df ! i)),
              CAC := clip_lower (Fin 5000) (CAC (df ! i))\<rparr>"
  using assms by (simp add: clean_def Let_def)




lemma ratio_step_nth:
  assumes "i < length df"
  shows "CLTV_CAC_Ratio (ratio_step df ! i) = np_round2 (fdiv (CLTV (df ! i)) (CAC (df ! i)))"
  using assms by (simp add: ratio_step_def)




lemma fl_400: "fl 400 = Fin 400"
  by code_simp

lemma breakeven_unguarded:
  "breakeven_customers assumptions es = Inr (fdiv (Fin 400) (mean_seq (map margin es)))"
  by (simp add: breakeven_customers_def assumptions_def float_of_int_def fl_400)

lemma np_round2_PInf: "np_round2 PInf = PInf"
  by (simp add: np_round2_def inf_of_sign_def)

lemma free_tier_revenue_cell:
  "revenue_cell (PInt 0) (PInt 0) (PInt 6) (PInt 12) (PInt 2000000) (PInt 1000000)
     = Inl ZeroDivisionError"
  by code_simp

lemma zero_mean_margin:
  "mean_seq (map margin [\<lparr>total_cost = Fin 200, margin = Fin (- 200), gross_margin_pct = Fin 0\<rparr>,
                          \<lparr>total_cost = Fin 300, margin = Fin 200, gross_margin_pct = Fin 40\<rparr>]) = Fin 0"
  by code_simp

section \<open>The revenue model of notebook 04\<close>

text \<open>
  C10. With prices 30 and 60, costs 6 and 12, and 2,000,000 input and 1,000,000 output
  tokens, the first cell computes revenue exactly 120.0, cost exactly 24.0 and gross
  margin exactly 80.0 in binary64: no rounding error is left in any of the three. With
  the same prices the second cell computes exactly 48,000,000.0, printed as 48.0 (M).
\<close>

theorem C10_revenue_model_exact:
  "revenue_cell (PInt 30) (PInt 60) (PInt 6) (PInt 12) (PInt 2000000) (PInt 1000000)
     = Inr \<lparr>revenue = PFloat (Fin 120), cost = PFloat (Fin 24), gross_margin = PFloat (Fin 80)\<rparr>
   \<and> annual_revenue_cell (PInt 30) (PInt 60) = Inr (PFloat (Fin 48000000))
   \<and> annual_revenue_millions (PInt 30) (PInt 60) = Inr (PFloat (Fin 48))"
  by code_simp

section \<open>The cohort table of notebook 07\<close>

lemma cohorts_unit_economics:
  "apply_rows (calculate_unit_economics assumptions) cohorts =
     Inr [\<lparr>total_cost = Fin (2005 / 10), margin = Fin (- 2005 / 10), gross_margin_pct = Fin 0\<rparr>,
          \<lparr>total_cost = Fin 285, margin = Fin 1215, gross_margin_pct = Fin 81\<rparr>,
          \<lparr>total_cost = Fin 1050, margin = Fin 23950,
           gross_margin_pct = Fin (6741325692220211 / 70368744177664)\<rparr>]"
  by code_simp


text \<open>
  C1. For a cohort row whose token counts and payment are ints of an int64 column,
  \<open>calculate_unit_economics\<close> returns (it raises nothing) with
  \<open>total_cost = (monthly_tokens / 1000) * 0.001 + (fine_tune_tokens / 1000) * 1.5 + 200\<close>
  and \<open>margin = payment - total_cost\<close>, each operator being the binary64 one; and on
  the three hard-coded cohorts the total costs are 200.5, 285.0, 1050.0 and the margins
  -200.5, 1215.0, 23950.0, exactly.
\<close>

theorem C1_total_cost_and_margin:
  assumes "monthly_tokens r = PInt mt" and "fine_tune_tokens r = PInt ft" and "payment r = PInt p"
    and "\<bar>mt\<bar> \<le> 2 ^ 63" and "\<bar>ft\<bar> \<le> 2 ^ 63" and "\<bar>p\<bar> \<le> 2 ^ 63"
  shows "(\<exists>res. calculate_unit_economics assumptions r = Inr res
           \<and> total_cost res =
                fadd (fadd (fmul (fl (of_int mt / 1000)) (fl (1 / 1000)))
                           (fmul (fl (of_int ft / 1000)) (fl (15 / 10)))) (Fin 200)
           \<and> margin res = fsub (fl (of_int p)) (total_cost res))
       \<and> (\<exists>rs. apply_rows (calculate_unit_economics assumptions) cohorts = Inr rs
           \<and> map total_cost rs = [Fin (2005 / 10), Fin 285, Fin 1050]
           \<and> map margin rs = [Fin (- 2005 / 10), Fin 1215, Fin 23950])"
proof -
  have "\<exists>res. calculate_unit_economics assumptions r = Inr res
           \<and> total_cost res =
                fadd (fadd (fmul (fl (of_int mt / 1000)) (fl (1 / 1000)))
                           (fmul (fl (of_int ft / 1000)) (fl (15 / 10)))) (Fin 200)
           \<and> margin res = fsub (fl (of_int p)) (total_cost res)"
    using calculate_unit_economics_int64 [OF assms] by blast
  moreover have "\<exists>rs. apply_rows (calculate_unit_economics assumptions) cohorts = Inr rs
           \<and> map total_cost rs = [Fin (2005 / 10), Fin 285, Fin 1050]
           \<and> map margin rs = [Fin (- 2005 / 10), Fin 1215, Fin 23950]"
    by (simp add: cohorts_unit_economics)
  ultimately show ?thesis by blast
qed

theorem C1_total_cost_and_margin_witness:
  "monthly_tokens (cohorts ! 1) = PInt 10000000 \<and> fine_tune_tokens (cohorts ! 1) = PInt 50000
   \<and> payment (cohorts ! 1) = PInt 1500
   \<and> (\<exists>res. calculate_unit_economics assumptions (cohorts ! 1) = Inr res
           \<and> total_cost res =
                fadd (fadd (fmul (fl (10000000 / 1000)) (fl (1 / 1000)))
                           (fmul (fl (50000 / 1000)) (fl (15 / 10)))) (Fin 200)
           \<and> margin res = fsub (fl 1500) (total_cost res))"
proof -
  have h: "monthly_tokens (cohorts ! 1) = PInt 10000000" "fine_tune_tokens (cohorts ! 1) = PInt 50000"
    "payment (cohorts ! 1) = PInt 1500"
    by (simp_all add: cohorts_def)
  have b: "\<bar>10000000 :: int\<bar> \<le> 2 ^ 63" "\<bar>50000 :: int\<bar> \<le> 2 ^ 63" "\<bar>1500 :: int\<bar> \<le> 2 ^ 63"
    by simp_all
  show ?thesis
    using C1_total_cost_and_margin [OF h b] h by simp
qed



section \<open>The tier table of notebook 03\<close>







lemma cltv_step_nth:
  assumes "i < length df"
  shows "cltv_step df ! i =
     \<lparr>Customer_ID = Customer_ID (df ! i), Segment = Segment (df ! i),
      Annual_Revenue = customer.Annual_Revenue (df ! i), Gross_Margin = Gross_Margin (df ! i),
      CAC = CAC (df ! i), Retention_Years = Retention_Years (df ! i), CLTV = cltv_of (df ! i)\<rparr>"
  using assms by (simp add: cltv_step_def)

text \<open>
  What \<open>round(2)\<close> returns on a finite value \<open>x\<close> whose hundredfold \<open>y\<close> is finite: the
  double nearest to \<open>k / 100\<close>, for the integer \<open>k\<close> nearest to \<open>y\<close> (ties to even).
\<close>

lemma np_round2_finite:
  assumes "fmul (Fin x) (Fin 100) = Fin y"
  shows "np_round2 (Fin x) = fl (of_int (round_half_even y) / 100)"
  using assms by (simp add: np_round2_def)

lemma sample_cltv:
  "cltv_of \<lparr>Customer_ID = 1, Segment = ''Startup'', Annual_Revenue = Fin 100000,
            Gross_Margin = fl (7 / 10), CAC = Fin 20000, Retention_Years = 3\<rparr> = Fin 210000"
  by code_simp

text \<open>
  C3. After the CLTV cell the table has as many rows as before, and row \<open>i\<close> keeps its
  six fields and has \<open>CLTV = round((Annual_Revenue * Gross_Margin) * Retention_Years, 2)\<close>
  in binary64, the years converted to float64. When the product \<open>x\<close> and its hundredfold
  \<open>y\<close> are finite, that value is the double nearest to \<open>k / 100\<close> for the integer \<open>k\<close>
  nearest to \<open>y\<close>: the product rounded to two decimal places.
\<close>

theorem C3_cltv_formula:
  assumes "i < length df"
  shows "length (cltv_step df) = length df
       \<and> CLTV (cltv_step df ! i) =
            np_round2 (fmul (fmul (customer.Annual_Revenue (df ! i)) (Gross_Margin (df ! i)))
                            (int64_to_float (Retention_Years (df ! i))))
       \<and> Customer_ID (cltv_step df ! i) = Customer_ID (df ! i)
       \<and> Segment (cltv_step df ! i) = Segment (df ! i)
       \<and> customer.Annual_Revenue (cltv_step df ! i) = customer.Annual_Revenue (df ! i)
       \<and> Gross_Margin (cltv_step df ! i) = Gross_Margin (df ! i)
       \<and> CAC (cltv_step df ! i) = CAC (df ! i)
       \<and> Retention_Years (cltv_step df ! i) = Retention_Years (df ! i)
       \<and> (\<forall>x y. fmul (fmul (customer.Annual_Revenue (df ! i)) (Gross_Margin (df ! i)))
                      (int64_to_float (Retention_Years (df ! i))) = Fin x
                 \<and> fmul (Fin x) (Fin 100) = Fin y \<longrightarrow>
               CLTV (cltv_step df ! i) = fl (of_int (round_half_even y) / 100)
               \<and> \<bar>of_int (round_half_even y) - y\<bar> \<le> 1 / 2)"
proof -
  have len: "length (cltv_step df) = length df"
    by (simp add: cltv_step_def)
  have row: "cltv_step df ! i =
     \<lparr>Customer_ID = Customer_ID (df ! i), Segment = Segment (df ! i),
      Annual_Revenue = customer.Annual_Revenue (df ! i), Gross_Margin = Gross_Margin (df ! i),
      CAC = CAC (df ! i), Retention_Years = Retention_Years (df ! i), CLTV = cltv_of (df ! i)\<rparr>"
    using assms by (rule cltv_step_nth)
  have rounded: "CLTV (cltv_step df ! i) = fl (of_int (round_half_even y) / 100)
               \<and> \<bar>of_int (round_half_even y) - y\<bar> \<le> 1 / 2"
    if "fmul (fmul (customer.Annual_Revenue (df ! i)) (Gross_Margin (df ! i)))
                      (int64_to_float (Retention_Years (df ! i))) = Fin x"
      and "fmul (Fin x) (Fin 100) = Fin y" for x y
  proof
    show "CLTV (cltv_step df ! i) = fl (of_int (round_half_even y) / 100)"
      using that np_round2_finite [of x y] by (simp add: row cltv_of_def)
    show "\<bar>of_int (round_half_even y) - y\<bar> \<le> 1 / 2"
      by (rule round_half_even_err)
  qed
  show ?thesis
    using len rounded by (simp add: row cltv_of_def)
qed

theorem C3_cltv_formula_witness:
  "(0::nat) < length [\<lparr>Customer_ID = 1, Segment = ''Startup'', Annual_Revenue = Fin 100000,
            Gross_Margin = fl (7 / 10), CAC = Fin 20000, Retention_Years = 3\<rparr>]
   \<and> CLTV (cltv_step [\<lparr>Customer_ID = 1, Segment = ''Startup'', Annual_Revenue = Fin 100000,
            Gross_Margin = fl (7 / 10), CAC = Fin 20000, Retention_Years = 3\<rparr>] ! 0) = Fin 210000
   \<and> CAC (cltv_step [\<lparr>Customer_ID = 1, Segment = ''Startup'', Annual_Revenue = Fin 100000,
            Gross_Margin = fl (7 / 10), CAC = Fin 20000, Retention_Years = 3\<rparr>] ! 0) = Fin 20000"
proof -
  have h: "(0::nat) < length [\<lparr>Customer_ID = 1, Segment = ''Startup'', Annual_Revenue = Fin 100000,
            Gross_Margin = fl (7 / 10), CAC = Fin 20000, Retention_Years = 3\<rparr>]"
    by simp
  show ?thesis
    using C3_cltv_formula [OF h] sample_cltv
    by (simp add: cltv_of_def)
qed

lemma constant_library_contract:
  "seed_resets constant_library" "draws_sized constant_library" "draws_not_nan constant_library"
  by (auto simp: seed_resets_def draws_sized_def draws_not_nan_def constant_library_def
      isfinite_def isnan_def split: double.splits)

lemma clean_row:
  "clean df = map (\<lambda>r. r\<lparr>Annual_Revenue := clip_lower (Fin 20000) (customer.Annual_Revenue r),
                           CAC := clip_lower (Fin 5000) (CAC r)\<rparr>) df"
  by (simp add: clean_def Let_def)

lemma cltv_step_preserves:
  assumes "\<forall>r \<in> set df. fge (customer.Annual_Revenue r) (Fin 20000) \<and> fge (CAC r) (Fin 5000)"
  shows "\<forall>r \<in> set (cltv_step df). fge (customer.Annual_Revenue r) (Fin 20000) \<and> fge (CAC r) (Fin 5000)"
  using assms by (auto simp: cltv_step_def)

lemma ratio_step_preserves:
  assumes "\<forall>r \<in> set df. fge (customer.Annual_Revenue r) (Fin 20000) \<and> fge (CAC r) (Fin 5000)"
  shows "\<forall>r \<in> set (ratio_step df). fge (customer.Annual_Revenue r) (Fin 20000) \<and> fge (CAC r) (Fin 5000)"
  using assms by (auto simp: ratio_step_def)

lemma data_setup_invariant:
  assumes sized: "draws_sized lib" and finite: "draws_not_nan lib"
  shows "\<exists>df s. data_setup lib s0 = Inr (df, s) \<and> length df = 150
           \<and> (\<forall>r \<in> set df. fge (customer.Annual_Revenue r) (Fin 20000) \<and> fge (CAC r) (Fin 5000))"
proof -
  from data_setup_frame [OF sized, of s0] obtain seg ar gm cac ry s s' s'' where
    ds: "data_setup lib s0 =
             Inr (clean (map (\<lambda>i. \<lparr>Customer_ID = int (i + 1), Segment = seg ! i,
                                    Annual_Revenue = np_round2 (ar ! i), Gross_Margin = np_round2 (gm ! i),
                                    CAC = np_round2 (cac ! i), Retention_Years = ry ! i\<rparr>)
                             [0..<150]), s)"
    and ar: "ar = fst (random_normal lib (fl 100000) (fl 30000) 150 s')"
    and cac: "cac = fst (random_normal lib (fl 20000) (fl 5000) 150 s'')"
    and len: "length ar = 150" "length cac = 150"
    by blast
  have nar: "\<not> isnan (ar ! i)" if "i < 150" for i
  proof -
    have "ar ! i \<in> set ar" using that len by simp
    then show ?thesis
      using finite fl_setup_finite unfolding draws_not_nan_def ar by blast
  qed
  have ncac: "\<not> isnan (cac ! i)" if "i < 150" for i
  proof -
    have "cac ! i \<in> set cac" using that len by simp
    then show ?thesis
      using finite fl_setup_finite unfolding draws_not_nan_def cac by blast
  qed
  define df where "df = clean (map (\<lambda>i. \<lparr>Customer_ID = int (i + 1), Segment = seg ! i,
                                    Annual_Revenue = np_round2 (ar ! i), Gross_Margin = np_round2 (gm ! i),
                                    CAC = np_round2 (cac ! i), Retention_Years = ry ! i\<rparr>)
                             [0..<150])"
  have "length df = 150" by (simp add: df_def clean_row)
  moreover have "\<forall>r \<in> set df. fge (customer.Annual_Revenue r) (Fin 20000) \<and> fge (CAC r) (Fin 5000)"
    using nar ncac
    by (auto simp: df_def clean_row intro!: clip_lower_ge np_round2_not_nan)
  ultimately show ?thesis using ds df_def by blast
qed

text \<open>
  C8. When every draw has the requested size and the normal draws hold no NaN, the
  data-setup cell returns a table of 150 rows, each with \<open>Annual_Revenue >= 20000\<close> and
  \<open>CAC >= 5000\<close>; the rows still satisfy both after the CLTV column and after the ratio
  column are added; and the divisor \<open>CAC\<close> of the ratio is at least 5000 in every row,
  so it is neither zero nor NaN.
\<close>

theorem C8_clip_invariant:
  assumes "draws_sized lib" and "draws_not_nan lib"
  shows "\<exists>df s. data_setup lib s0 = Inr (df, s) \<and> length df = 150
           \<and> (\<forall>r \<in> set df. fge (customer.Annual_Revenue r) (Fin 20000) \<and> fge (CAC r) (Fin 5000))
           \<and> (\<forall>r \<in> set (cltv_step df).
                 fge (customer.Annual_Revenue r) (Fin 20000) \<and> fge (CAC r) (Fin 5000)
                 \<and> CAC r \<noteq> Fin 0 \<and> \<not> isnan (CAC r))
           \<and> (\<forall>r \<in> set (ratio_step (cltv_step df)).
                 fge (customer.Annual_Revenue r) (Fin 20000) \<and> fge (CAC r) (Fin 5000))"
proof -
  from data_setup_invariant [OF assms, of s0] obtain df s where
    ds: "data_setup lib s0 = Inr (df, s)" and len: "length df = 150"
    and inv: "\<forall>r \<in> set df. fge (customer.Annual_Revenue r) (Fin 20000) \<and> fge (CAC r) (Fin 5000)"
    by blast
  note inv1 = cltv_step_preserves [OF inv]
  note inv2 = ratio_step_preserves [OF inv1]
  have "\<forall>r \<in> set (cltv_step df). CAC r \<noteq> Fin 0 \<and> \<not> isnan (CAC r)"
    using inv1 by (auto simp: fge_def dest: fge_positive_nonzero)
  with ds len inv inv1 inv2 show ?thesis by blast
qed

theorem C8_clip_invariant_witness:
  "draws_sized constant_library \<and> draws_not_nan constant_library
   \<and> (\<exists>df s. data_setup constant_library 0 = Inr (df, s) \<and> length df = 150
         \<and> fge (customer.Annual_Revenue (df ! 0)) (Fin 20000) \<and> fge (CAC (df ! 0)) (Fin 5000)
         \<and> CAC (cltv_step df ! 0) \<noteq> Fin 0
         \<and> fge (CAC (ratio_step (cltv_step df) ! 0)) (Fin 5000))"
proof -
  from C8_clip_invariant [OF constant_library_contract(2,3), of 0] obtain df s where
    ds: "data_setup constant_library 0 = Inr (df, s)" and len: "length df = 150"
    and inv: "\<forall>r \<in> set df. fge (customer.Annual_Revenue r) (Fin 20000) \<and> fge (CAC r) (Fin 5000)"
    and inv1: "\<forall>r \<in> set (cltv_step df).
                 fge (customer.Annual_Revenue r) (Fin 20000) \<and> fge (CAC r) (Fin 5000)
                 \<and> CAC r \<noteq> Fin 0 \<and> \<not> isnan (CAC r)"
    and inv2: "\<forall>r \<in> set (ratio_step (cltv_step df)).
                 fge (customer.Annual_Revenue r) (Fin 20000) \<and> fge (CAC r) (Fin 5000)"
    by blast
  have "df ! 0 \<in> set df" "cltv_step df ! 0 \<in> set (cltv_step df)"
    "ratio_step (cltv_step df) ! 0 \<in> set (ratio_step (cltv_step df))"
    using len by (simp_all add: cltv_step_def ratio_step_def)
  with ds len inv inv1 inv2 constant_library_contract show ?thesis by blast
qed



section \<open>Guards, clamps and files\<close>

lemma clip_lower_finite: "clip_lower (Fin lo) (Fin x) = Fin (max lo x)"
  by (auto simp: clip_lower_def fge_def isnan_def max_def)

lemma indie_economics:
  "calculate_unit_economics assumptions
     \<lparr>name = ''Indie'', monthly_tokens = PInt 500000, fine_tune_tokens = PInt 0,
      payment = PInt 0, churn = PFloat (fl (10 / 100)), count = PInt 1000\<rparr>
   = Inr \<lparr>total_cost = Fin (2005 / 10), margin = Fin (- 2005 / 10), gross_margin_pct = Fin 0\<rparr>"
  by code_simp

text \<open>
  C4, as the code has it. The \<open>payment > 0\<close> test is the only guard of a division: with
  it \<open>calculate_unit_economics\<close> never raises ZeroDivisionError and gives the percentage
  \<open>0\<close> when the payment is not positive, while the three other divisions by a computed
  value are evaluated whatever the divisor: the ratio \<open>CLTV / CAC\<close> of every row, the
  break-even \<open>400 / mean margin\<close> (not finite for a zero mean), and the gross margin of
  the revenue model (ZeroDivisionError for a zero revenue). It is not the only defensive
  logic: the data-setup cell of the customer-profitability notebook clamps
  \<open>Annual_Revenue\<close> from below at 20000 and \<open>CAC\<close> from below at 5000.
\<close>

theorem C4_guard_and_clamps:
  "(calculate_unit_economics assumptions r = Inr res \<and> \<not> py_gt (payment r) (PInt 0)
      \<longrightarrow> gross_margin_pct res = Fin 0)
   \<and> calculate_unit_economics assumptions r \<noteq> Inl ZeroDivisionError
   \<and> (i < length df1 \<longrightarrow>
        CLTV_CAC_Ratio (ratio_step df1 ! i) = np_round2 (fdiv (CLTV (df1 ! i)) (CAC (df1 ! i))))
   \<and> breakeven_customers assumptions es = Inr (fdiv (Fin 400) (mean_seq (map margin es)))
   \<and> \<not> isfinite (fdiv (Fin 400) (Fin 0))
   \<and> revenue_cell (PInt 0) (PInt 0) (PInt 6) (PInt 12) (PInt 2000000) (PInt 1000000)
        = Inl ZeroDivisionError
   \<and> (j < length df \<longrightarrow>
        customer.Annual_Revenue (clean df ! j)
          = clip_lower (Fin 20000) (customer.Annual_Revenue (df ! j))
        \<and> CAC (clean df ! j) = clip_lower (Fin 5000) (CAC (df ! j)))
   \<and> clip_lower (Fin lo) (Fin x) = Fin (max lo x)"
proof (intro conjI impI)
  assume "calculate_unit_economics assumptions r = Inr res \<and> \<not> py_gt (payment r) (PInt 0)"
  then show "gross_margin_pct res = Fin 0"
    using calculate_unit_economics_pct [of r res] by simp
next
  show "calculate_unit_economics assumptions r \<noteq> Inl ZeroDivisionError"
    by (rule calculate_unit_economics_not_zde)
next
  assume "i < length df1"
  then show "CLTV_CAC_Ratio (ratio_step df1 ! i) = np_round2 (fdiv (CLTV (df1 ! i)) (CAC (df1 ! i)))"
    by (rule ratio_step_nth)
next
  show "breakeven_customers assumptions es = Inr (fdiv (Fin 400) (mean_seq (map margin es)))"
    by (rule breakeven_unguarded)
next
  show "\<not> isfinite (fdiv (Fin 400) (Fin 0))"
    by (simp add: inf_of_sign_def isfinite_def)
next
  show "revenue_cell (PInt 0) (PInt 0) (PInt 6) (PInt 12) (PInt 2000000) (PInt 1000000)
        = Inl ZeroDivisionError"
    by (rule free_tier_revenue_cell)
next
  assume j: "j < length df"
  show "customer.Annual_Revenue (clean df ! j)
          = clip_lower (Fin 20000) (customer.Annual_Revenue (df ! j))"
    by (simp add: clean_nth [OF j])
  show "CAC (clean df ! j) = clip_lower (Fin 5000) (CAC (df ! j))"
    by (simp add: clean_nth [OF j])
next
  show "clip_lower (Fin lo) (Fin x) = Fin (max lo x)"
    by (rule clip_lower_finite)
qed

theorem C4_guard_and_clamps_witness:
  "calculate_unit_economics assumptions
     \<lparr>name = ''Indie'', monthly_tokens = PInt 500000, fine_tune_tokens = PInt 0,
      payment = PInt 0, churn = PFloat (fl (10 / 100)), count = PInt 1000\<rparr>
     = Inr \<lparr>total_cost = Fin (2005 / 10), margin = Fin (- 2005 / 10), gross_margin_pct = Fin 0\<rparr>
   \<and> \<not> py_gt (PInt 0) (PInt 0)
   \<and> \<not> isfinite (CLTV_CAC_Ratio (ratio_step
        [\<lparr>Customer_ID = 1, Segment = ''Startup'', Annual_Revenue = Fin 100000,
          Gross_Margin = fl (7 / 10), CAC = Fin 0, Retention_Years = 3, CLTV = Fin 210000\<rparr>] ! 0))
   \<and> (\<exists>d. breakeven_customers assumptions
              [\<lparr>total_cost = Fin 200, margin = Fin (- 200), gross_margin_pct = Fin 0\<rparr>,
               \<lparr>total_cost = Fin 300, margin = Fin 200, gross_margin_pct = Fin 40\<rparr>] = Inr d
          \<and> \<not> isfinite d)
   \<and> customer.Annual_Revenue (clean
        [\<lparr>Customer_ID = 2, Segment = ''Government'', Annual_Revenue = Fin 150000,
          Gross_Margin = fl (8 / 10), CAC = Fin (8643 / 2), Retention_Years = 5\<rparr>] ! 0)
       = Fin 150000
   \<and> CAC (clean
        [\<lparr>Customer_ID = 2, Segment = ''Government'', Annual_Revenue = Fin 150000,
          Gross_Margin = fl (8 / 10), CAC = Fin (8643 / 2), Retention_Years = 5\<rparr>] ! 0)
       = Fin 5000"
  using C4_guard_and_clamps [of
      "\<lparr>name = ''Indie'', monthly_tokens = PInt 500000, fine_tune_tokens = PInt 0,
        payment = PInt 0, churn = PFloat (fl (10 / 100)), count = PInt 1000\<rparr>"
      "\<lparr>total_cost = Fin (2005 / 10), margin = Fin (- 2005 / 10), gross_margin_pct = Fin 0\<rparr>"
      0
      "[\<lparr>Customer_ID = 1, Segment = ''Startup'', Annual_Revenue = Fin 100000,
          Gross_Margin = fl (7 / 10), CAC = Fin 0, Retention_Years = 3, CLTV = Fin 210000\<rparr>]"
      "[\<lparr>total_cost = Fin 200, margin = Fin (- 200), gross_margin_pct = Fin 0\<rparr>,
        \<lparr>total_cost = Fin 300, margin = Fin 200, gross_margin_pct = Fin 40\<rparr>]"
      0
      "[\<lparr>Customer_ID = 2, Segment = ''Government'', Annual_Revenue = Fin 150000,
          Gross_Margin = fl (8 / 10), CAC = Fin (8643 / 2), Retention_Years = 5\<rparr>]"
      20000 150000]
    C4_guard_and_clamps [of _ _ _ _ _ _ _ 5000 "8643 / 2"]
    indie_economics zero_mean_margin
  by (simp add: py_gt_int inf_of_sign_def np_round2_PInf isfinite_def)

theorem C4_counterexample:
  "clean [\<lparr>Customer_ID = 2, Segment = ''Government'', Annual_Revenue = Fin 150000,
           Gross_Margin = fl (8 / 10), CAC = Fin (8643 / 2), Retention_Years = 5\<rparr>]
   = [\<lparr>Customer_ID = 2, Segment = ''Government'', Annual_Revenue = Fin 150000,
           Gross_Margin = fl (8 / 10), CAC = Fin 5000, Retention_Years = 5\<rparr>]
   \<and> clean [\<lparr>Customer_ID = 2, Segment = ''Government'', Annual_Revenue = Fin 150000,
           Gross_Margin = fl (8 / 10), CAC = Fin (8643 / 2), Retention_Years = 5\<rparr>]
   \<noteq> [\<lparr>Customer_ID = 2, Segment = ''Government'', Annual_Revenue = Fin 150000,
           Gross_Margin = fl (8 / 10), CAC = Fin (8643 / 2), Retention_Years = 5\<rparr>]"
  by (simp add: clean_def clip_lower_finite)




section \<open>Files written by the notebooks\<close>

lemma files_render: "files (render out w) = files w"
  by (simp add: render_def)

lemma dirs_render: "dirs (render out w) = dirs w"
  by (simp add: render_def)

lemma rendered_render: "rendered (render out w) = rendered w @ [out]"
  by (simp add: render_def)

lemma files_renders: "files (renders outs w) = files w"
  by (induction outs arbitrary: w) (simp_all add: files_render)

lemma dirs_renders: "dirs (renders outs w) = dirs w"
  by (induction outs arbitrary: w) (simp_all add: dirs_render)

lemma rendered_renders: "rendered (renders outs w) = rendered w @ outs"
  by (induction outs arbitrary: w) (simp_all add: rendered_render)

lemma dirname_tiering: "dirname ''../report/graphics/tiering_revenue.png'' = ''../report/graphics''"
  by (simp add: dirname_def)

lemma tiering_plot_cell_files:
  "files (tiering_plot_cell df w) =
     (if ''../report/graphics'' \<in> dirs w
      then (files w)(''../report/graphics/tiering_revenue.png'' \<mapsto> tiering_figure df)
      else files w)"
  by (simp add: tiering_plot_cell_def savefig_def dirname_tiering files_render)

lemma tiering_plot_cell_dirs: "dirs (tiering_plot_cell df w) = dirs w"
  by (simp add: tiering_plot_cell_def savefig_def dirs_render)

lemma tiering_plot_cell_rendered:
  "\<exists>out. rendered (tiering_plot_cell df w) = rendered w @ [out]"
  by (simp add: tiering_plot_cell_def savefig_def rendered_render)

lemma tiering_figure_literal:
  "tiering_figure (product_tiering customers pricing) =
     \<lparr>fig_title = ''Annual Revenue by Tier'',
      fig_labels = [''Starter'', ''Growth'', ''Pro'', ''Enterprise''],
      fig_heights = IntCol [600000, 3600000, 2880000, 3000000]\<rparr>"
  by (simp add: tiering_figure_def product_tiering_def customers_def pricing_def series_map_def
      wrap64_def Let_def)

text \<open>
  C5, as the code has it. Running a notebook creates no directory and only appends to
  the outputs rendered inline, and every notebook but one leaves every file as it was.
  The exception is the product-tiering notebook 03: where the directory
  \<open>../report/graphics\<close> exists it writes its bar chart of the annual revenue by tier to
  \<open>../report/graphics/tiering_revenue.png\<close> and changes no other file; where the
  directory is missing it writes nothing.
\<close>

theorem C5_files_written:
  "(nb \<noteq> Product_Tiering_03 \<longrightarrow> files (run_notebook nb w) = files w)
   \<and> (''../report/graphics'' \<in> dirs w \<longrightarrow>
        files (run_notebook Product_Tiering_03 w) =
          (files w)(''../report/graphics/tiering_revenue.png'' \<mapsto>
             \<lparr>fig_title = ''Annual Revenue by Tier'',
              fig_labels = [''Starter'', ''Growth'', ''Pro'', ''Enterprise''],
              fig_heights = IntCol [600000, 3600000, 2880000, 3000000]\<rparr>))
   \<and> (''../report/graphics'' \<notin> dirs w \<longrightarrow> files (run_notebook Product_Tiering_03 w) = files w)
   \<and> dirs (run_notebook nb w) = dirs w
   \<and> (\<exists>outs. rendered (run_notebook nb w) = rendered w @ outs)"
proof (intro conjI impI)
  assume "nb \<noteq> Product_Tiering_03"
  then show "files (run_notebook nb w) = files w"
    by (cases nb) (simp_all add: files_renders files_render)
next
  assume "''../report/graphics'' \<in> dirs w"
  then show "files (run_notebook Product_Tiering_03 w) =
          (files w)(''../report/graphics/tiering_revenue.png'' \<mapsto>
             \<lparr>fig_title = ''Annual Revenue by Tier'',
              fig_labels = [''Starter'', ''Growth'', ''Pro'', ''Enterprise''],
              fig_heights = IntCol [600000, 3600000, 2880000, 3000000]\<rparr>)"
    by (simp add: tiering_plot_cell_files dirs_render files_render tiering_figure_literal)
next
  assume "''../report/graphics'' \<notin> dirs w"
  then show "files (run_notebook Product_Tiering_03 w) = files w"
    by (simp add: tiering_plot_cell_files dirs_render files_render)
next
  show "dirs (run_notebook nb w) = dirs w"
    by (cases nb) (simp_all add: dirs_renders dirs_render tiering_plot_cell_dirs)
next
  show "\<exists>outs. rendered (run_notebook nb w) = rendered w @ outs"
  proof (cases nb)
    case Product_Tiering_03
    obtain out where "rendered (tiering_plot_cell (product_tiering customers pricing)
        (render Rendered_table w)) = rendered (render Rendered_table w) @ [out]"
      using tiering_plot_cell_rendered by blast
    then show ?thesis using Product_Tiering_03 by (simp add: rendered_render)
  qed (simp_all add: rendered_renders rendered_render)
qed

theorem C5_files_written_witness:
  "Unit_Economics_07 \<noteq> Product_Tiering_03
   \<and> files (run_notebook Unit_Economics_07
        \<lparr>files = Map.empty, dirs = {''../report/graphics''}, rendered = []\<rparr>) = Map.empty
   \<and> ''../report/graphics'' \<in> dirs \<lparr>files = Map.empty, dirs = {''../report/graphics''}, rendered = []\<rparr>
   \<and> files (run_notebook Product_Tiering_03
        \<lparr>files = Map.empty, dirs = {''../report/graphics''}, rendered = []\<rparr>) =
        [''../report/graphics/tiering_revenue.png'' \<mapsto>
             \<lparr>fig_title = ''Annual Revenue by Tier'',
              fig_labels = [''Starter'', ''Growth'', ''Pro'', ''Enterprise''],
              fig_heights = IntCol [600000, 3600000, 2880000, 3000000]\<rparr>]
   \<and> ''../report/graphics'' \<notin> dirs \<lparr>files = Map.empty, dirs = {}, rendered = []\<rparr>
   \<and> files (run_notebook Product_Tiering_03 \<lparr>files = Map.empty, dirs = {}, rendered = []\<rparr>)
        = Map.empty"
  using C5_files_written [of Unit_Economics_07
      "\<lparr>files = Map.empty, dirs = {''../report/graphics''}, rendered = []\<rparr>"]
    C5_files_written [of Unit_Economics_07 "\<lparr>files = Map.empty, dirs = {}, rendered = []\<rparr>"]
  by simp

theorem C5_counterexample:
  "files (run_notebook Product_Tiering_03
        \<lparr>files = Map.empty, dirs = {''../report/graphics''}, rendered = []\<rparr>)
      ''../report/graphics/tiering_revenue.png''
     = Some \<lparr>fig_title = ''Annual Revenue by Tier'',
              fig_labels = [''Starter'', ''Growth'', ''Pro'', ''Enterprise''],
              fig_heights = IntCol [600000, 3600000, 2880000, 3000000]\<rparr>
   \<and> files \<lparr>files = Map.empty, dirs = {''../report/graphics''}, rendered = []\<rparr>
      ''../report/graphics/tiering_revenue.png'' = None"
  by (simp add: tiering_plot_cell_files dirs_render files_render tiering_figure_literal)

end
